theory Spec2Isabelle
  imports
    Complex_Main
    "HOL-Library.Char_ord"
    "HOL-Library.List_Lexorder"
    "HOL-Library.Sublist"
begin

section \<open>Python values and library functions used by the server\<close>

text \<open>
  The server (\<^verbatim>\<open>video_mcp_server/server.py\<close>) is a thin layer over external
  programs (ffprobe, ffmpeg), the file system, the process environment, the download
  library and a hosted inference API. The embedding keeps the control flow of every
  function of the module and makes each effect explicit:

  \<^item> a Python exception is a value \<open>Exception m\<close>, where \<open>m\<close> is what \<^verbatim>\<open>str(e)\<close> gives;
    a computation that may raise returns \<open>exn + 'a\<close> (\<open>Inl\<close> is the raise). Only
    exceptions derived from \<^verbatim>\<open>Exception\<close> are modelled, the ones an
    \<^verbatim>\<open>except Exception\<close> clause handles; interrupts and task cancellation are not;
  \<^item> a Python float is the real number it denotes; infinities and NaN are outside the
    model. The quotient \<^verbatim>\<open>duration / 60\<close> that the responses print is rounded to the
    nearest double (\<open>float_div\<close>), since the printed digit depends on it; the
    timestamps of \<^verbatim>\<open>extract_frames\<close> are computed without rounding;
  \<^item> strings are lists of characters with code points below 256;
  \<^item> every call that leaves the process is recorded as an \<open>event\<close>; the answer of the
    outside world to a call is given by a \<open>world\<close>, a record of functions of the
    history of events up to and including that call. A world is therefore any
    deterministic environment, and a statement proved for all worlds holds for every
    run of the program.
\<close>

datatype exn = Exception (str_exn: string)

text \<open>The message of \<^verbatim>\<open>ZeroDivisionError\<close> for a float dividend (CPython up to 3.13).\<close>

definition zero_division_msg :: string where
  "zero_division_msg = ''float division by zero''"

subsection \<open>Rendering numbers\<close>

definition digit_char :: "nat \<Rightarrow> char" where
  "digit_char d = ''0123456789'' ! d"

text \<open>\<^verbatim>\<open>str(n)\<close> for a natural number.\<close>

fun str_nat :: "nat \<Rightarrow> string" where
  "str_nat n = (if n < 10 then [digit_char n] else str_nat (n div 10) @ [digit_char (n mod 10)])"

declare str_nat.simps [simp del]

text \<open>\<^verbatim>\<open>str(i)\<close> and \<^verbatim>\<open>f"{i}"\<close> for an integer.\<close>

definition str_int :: "int \<Rightarrow> string" where
  "str_int i = (if i < 0 then ''-'' @ str_nat (nat (- i)) else str_nat (nat i))"

text \<open>\<^verbatim>\<open>f"{i:03d}"\<close>: the sign, then zeros up to a total width of three.\<close>

definition format_03d :: "int \<Rightarrow> string" where
  "format_03d i =
     (let ds = str_nat (nat \<bar>i\<bar>)
      in if i < 0 then ''-'' @ replicate (2 - length ds) (CHR ''0'') @ ds
         else replicate (3 - length ds) (CHR ''0'') @ ds)"

text \<open>\<^verbatim>\<open>f"{i:,}"\<close>: a comma between groups of three digits, on the reversed digits.\<close>

fun group3 :: "string \<Rightarrow> string" where
  "group3 (a # b # c # d # ds) = a # b # c # CHR '','' # group3 (d # ds)"
| "group3 ds = ds"

definition format_comma :: "int \<Rightarrow> string" where
  "format_comma i =
     (if i < 0 then ''-'' else '''') @ rev (group3 (rev (str_nat (nat \<bar>i\<bar>))))"

text \<open>
  \<^verbatim>\<open>f"{x:.kf}"\<close>: the decimal expansion of \<open>x\<close> rounded to \<open>k\<close> places, a tie going to
  the even neighbour.
\<close>

definition round_half_even :: "real \<Rightarrow> int" where
  "round_half_even x =
     (let f = \<lfloor>x\<rfloor>; r = x - of_int f
      in if r < 1 / 2 then f else if 1 / 2 < r then f + 1 else if even f then f else f + 1)"

definition format_f :: "nat \<Rightarrow> real \<Rightarrow> string" where
  "format_f k x =
     (let m = nat (round_half_even (\<bar>x\<bar> * 10 ^ k));
          ip = str_nat (m div 10 ^ k);
          fp = str_nat (m mod 10 ^ k)
      in (if x < 0 then ''-'' else '''') @ ip @
         (if k = 0 then '''' else ''.'' @ replicate (k - length fp) (CHR ''0'') @ fp))"

subsection \<open>Division of floats\<close>

text \<open>The number of binary digits of a natural number.\<close>

fun bit_length :: "nat \<Rightarrow> nat" where
  "bit_length n = (if n = 0 then 0 else Suc (bit_length (n div 2)))"

declare bit_length.simps [simp del]

text \<open>The binary exponent of \<open>x \<noteq> 0\<close>: the \<open>e\<close> with \<open>2 ^ e \<le> \<bar>x\<bar> < 2 ^ (e + 1)\<close>.\<close>

definition float_exponent :: "real \<Rightarrow> int" where
  "float_exponent x =
     (if 1 \<le> \<bar>x\<bar> then int (bit_length (nat \<lfloor>\<bar>x\<bar>\<rfloor>)) - 1
      else - int (bit_length (nat (\<lceil>1 / \<bar>x\<bar>\<rceil> - 1))))"

text \<open>\<open>x\<close> times \<open>2\<close> to the power \<open>k\<close>, for an integer \<open>k\<close>.\<close>

definition scale2 :: "real \<Rightarrow> int \<Rightarrow> real" where
  "scale2 x k = (if 0 \<le> k then x * 2 ^ nat k else x / 2 ^ nat (- k))"

text \<open>
  The double nearest to \<open>x\<close>, a tie going to the even significand, as IEEE 754 binary64
  rounds the result of an operation: \<open>x\<close> is scaled so that its significand has 53
  binary digits before the point, rounded to an integer and scaled back. This is the
  rounding of the normal range; subnormal results and overflow are outside the model.
\<close>

definition round_double :: "real \<Rightarrow> real" where
  "round_double x =
     (if x = 0 then 0
      else let e = float_exponent x;
               m = round_half_even (scale2 \<bar>x\<bar> (52 - e))
           in sgn x * scale2 (of_int m) (e - 52))"

text \<open>\<^verbatim>\<open>x / y\<close> on floats (and on integers, whose true division rounds the same way),
  for \<open>y \<noteq> 0\<close>.\<close>

definition float_div :: "real \<Rightarrow> real \<Rightarrow> real" where
  "float_div x y = round_double (x / y)"

subsection \<open>Strings\<close>

text \<open>The characters \<^verbatim>\<open>str.isspace\<close> accepts, among code points below 256.\<close>

definition is_space :: "char \<Rightarrow> bool" where
  "is_space c \<longleftrightarrow> c \<in> set [CHR 0x09, CHR 0x0A, CHR 0x0B, CHR 0x0C, CHR 0x0D,
     CHR 0x1C, CHR 0x1D, CHR 0x1E, CHR 0x1F, CHR 0x20, CHR 0x85, CHR 0xA0]"

text \<open>\<^verbatim>\<open>s.strip()\<close>\<close>

definition strip :: "string \<Rightarrow> string" where
  "strip s = rev (dropWhile is_space (rev (dropWhile is_space s)))"

text \<open>\<^verbatim>\<open>s.split(c)\<close> for a one-character separator.\<close>

fun split_on :: "char \<Rightarrow> string \<Rightarrow> string list" where
  "split_on c [] = [[]]"
| "split_on c (x # xs) =
     (if x = c then [] # split_on c xs
      else (case split_on c xs of [] \<Rightarrow> [[x]] | p # ps \<Rightarrow> (x # p) # ps))"

text \<open>\<^verbatim>\<open>sep.join(parts)\<close>\<close>

fun join_with :: "string \<Rightarrow> string list \<Rightarrow> string" where
  "join_with sep [] = []"
| "join_with sep [p] = p"
| "join_with sep (p # q # ps) = p @ sep @ join_with sep (q # ps)"

text \<open>\<^verbatim>\<open>a or b\<close> on strings: the empty string is falsy.\<close>

definition str_or :: "string \<Rightarrow> string \<Rightarrow> string" where
  "str_or a b = (if a = [] then b else a)"

section \<open>The outside world\<close>

text \<open>
  The external commands, by what they do rather than by their argument vectors
  (\<^verbatim>\<open>str(timestamp)\<close> in the vector of a frame capture is a float rendering):
  the three ffprobe queries of \<^verbatim>\<open>get_video_info\<close>, the single-frame ffmpeg capture
  of \<^verbatim>\<open>extract_frames\<close> (input, \<^verbatim>\<open>-ss\<close> timestamp, output), the MP3 encoding of
  \<^verbatim>\<open>extract_audio\<close> (input, output) and the stream-copy segmenting of
  \<^verbatim>\<open>split_video\<close> (input, \<^verbatim>\<open>-segment_time\<close>, output pattern).
\<close>

datatype command =
    ProbeDuration string
  | ProbeSize string
  | ProbeCodec string
  | CaptureFrame string real string
  | EncodeAudio string string
  | SegmentCopy string int string

text \<open>What \<^verbatim>\<open>subprocess.run(cmd, capture_output=True, text=True)\<close> returns.\<close>

record completed =
  returncode :: int
  stdout :: string

text \<open>
  The fields of yt-dlp's info dictionary the server reads; \<open>None\<close> is a missing key.
  A key that is present is taken to hold a value of the type given here.
\<close>

record yt_info =
  yt_title :: "string option"
  yt_duration :: "int option"
  yt_uploader :: "string option"
  yt_description :: "string option"
  yt_view_count :: "int option"
  yt_like_count :: "int option"
  yt_upload_date :: "string option"

datatype event =
    Run command
  | Makedirs string
  | Exists string
  | Listdir string
  | Getenv string
  | Expanduser string
  | NewClient string
  | ReadFile string
  | ChatCompletion string string "string list"
  | Transcription string string
  | ImportYtDlp
  | YtExtractInfo "(string \<times> string) option" string
  | YtDownload "(string \<times> string) option" string
  | YtPrepareFilename "(string \<times> string) option" string

text \<open>
  The answers of the world. The fields that take an \<open>event list\<close> answer the last
  event of that history. The remaining fields are the pure library functions the module
  calls and does not define: \<^verbatim>\<open>float\<close>, \<^verbatim>\<open>int\<close>, \<^verbatim>\<open>os.path.dirname\<close>,
  \<^verbatim>\<open>os.path.join\<close>, and \<^verbatim>\<open>Path(p).stem\<close>, \<^verbatim>\<open>Path(p).name\<close>,
  \<^verbatim>\<open>str(Path(p).with_suffix(".mp4"))\<close>.
\<close>

record world =
  run_out :: "event list \<Rightarrow> exn + completed"
  makedirs_out :: "event list \<Rightarrow> exn option"
  exists_out :: "event list \<Rightarrow> bool"
  listdir_out :: "event list \<Rightarrow> exn + string list"
  getenv_out :: "event list \<Rightarrow> string option"
  expanduser_out :: "event list \<Rightarrow> string"
  new_client_out :: "event list \<Rightarrow> exn option"
  read_out :: "event list \<Rightarrow> exn + string"
  chat_out :: "event list \<Rightarrow> exn + string option"
  transcription_out :: "event list \<Rightarrow> exn + string"
  import_out :: "event list \<Rightarrow> exn option"
  yt_extract_out :: "event list \<Rightarrow> exn + yt_info"
  yt_download_out :: "event list \<Rightarrow> exn option"
  yt_filename_out :: "event list \<Rightarrow> exn + string"
  py_float :: "string \<Rightarrow> exn + real"
  py_int :: "string \<Rightarrow> exn + int"
  dirname :: "string \<Rightarrow> string"
  path_join :: "string \<Rightarrow> string \<Rightarrow> string"
  path_stem :: "string \<Rightarrow> string"
  path_name :: "string \<Rightarrow> string"
  with_suffix_mp4 :: "string \<Rightarrow> exn + string"

text \<open>\<^verbatim>\<open>subprocess.run\<close>: raises (for example when the program is not installed) or
  returns the completed process.\<close>

definition subprocess_run ::
  "world \<Rightarrow> command \<Rightarrow> event list \<Rightarrow> (exn + completed) \<times> event list" where
  "subprocess_run w c t = (let t' = t @ [Run c] in (run_out w t', t'))"

text \<open>\<^verbatim>\<open>os.makedirs(d, exist_ok=True)\<close>: \<open>Some e\<close> is the exception raised.\<close>

definition os_makedirs :: "world \<Rightarrow> string \<Rightarrow> event list \<Rightarrow> exn option \<times> event list" where
  "os_makedirs w d t = (let t' = t @ [Makedirs d] in (makedirs_out w t', t'))"

text \<open>\<^verbatim>\<open>os.path.exists(p)\<close>\<close>

definition path_exists :: "world \<Rightarrow> string \<Rightarrow> event list \<Rightarrow> bool \<times> event list" where
  "path_exists w p t = (let t' = t @ [Exists p] in (exists_out w t', t'))"

text \<open>\<^verbatim>\<open>os.listdir(d)\<close>\<close>

definition os_listdir ::
  "world \<Rightarrow> string \<Rightarrow> event list \<Rightarrow> (exn + string list) \<times> event list" where
  "os_listdir w d t = (let t' = t @ [Listdir d] in (listdir_out w t', t'))"

text \<open>\<^verbatim>\<open>os.environ.get(k)\<close>\<close>

definition os_getenv :: "world \<Rightarrow> string \<Rightarrow> event list \<Rightarrow> string option \<times> event list" where
  "os_getenv w k t = (let t' = t @ [Getenv k] in (getenv_out w t', t'))"

text \<open>\<^verbatim>\<open>open(p, "rb").read()\<close>\<close>

definition read_file :: "world \<Rightarrow> string \<Rightarrow> event list \<Rightarrow> (exn + string) \<times> event list" where
  "read_file w p t = (let t' = t @ [ReadFile p] in (read_out w t', t'))"

section \<open>VideoProcessor\<close>

record video_info =
  duration :: real
  width :: int
  height :: int
  codec :: string
  path :: string
  filename :: string

text \<open>
  The dictionary \<^verbatim>\<open>get_video_info\<close> returns: \<^verbatim>\<open>{"error": m, "path": p}\<close> or the
  six metadata fields.
\<close>

datatype info_dict = ErrorInfo string string | VideoInfo video_info

text \<open>
  \<^verbatim>\<open>width, height = map(int, parts)\<close>: the targets are filled from the lazy
  \<^verbatim>\<open>map\<close> one by one, then one more item is requested to check that none is left;
  \<^verbatim>\<open>int\<close> may raise at each item.
\<close>

fun unpack_size :: "world \<Rightarrow> string list \<Rightarrow> exn + int \<times> int" where
  "unpack_size w [] = Inl (Exception ''not enough values to unpack (expected 2, got 0)'')"
| "unpack_size w [a] =
     (case py_int w a of
        Inl e \<Rightarrow> Inl e
      | Inr x \<Rightarrow> Inl (Exception ''not enough values to unpack (expected 2, got 1)''))"
| "unpack_size w [a, b] =
     (case py_int w a of
        Inl e \<Rightarrow> Inl e
      | Inr x \<Rightarrow> (case py_int w b of Inl e \<Rightarrow> Inl e | Inr y \<Rightarrow> Inr (x, y)))"
| "unpack_size w (a # b # c # rest) =
     (case py_int w a of
        Inl e \<Rightarrow> Inl e
      | Inr x \<Rightarrow>
          (case py_int w b of
             Inl e \<Rightarrow> Inl e
           | Inr y \<Rightarrow>
               (case py_int w c of
                  Inl e \<Rightarrow> Inl e
                | Inr z \<Rightarrow> Inl (Exception ''too many values to unpack (expected 2)''))))"

text \<open>The three right-hand sides of \<^verbatim>\<open>get_video_info\<close> that read a probe's result.\<close>

definition read_duration :: "world \<Rightarrow> completed \<Rightarrow> exn + real" where
  "read_duration w duration_result =
     (if returncode duration_result = 0 then py_float w (strip (stdout duration_result))
      else Inr 0)"

definition read_size :: "world \<Rightarrow> completed \<Rightarrow> exn + int \<times> int" where
  "read_size w size_result =
     (if returncode size_result = 0 \<and> CHR ''x'' \<in> set (stdout size_result)
      then unpack_size w (split_on (CHR ''x'') (strip (stdout size_result)))
      else Inr (0, 0))"

definition read_codec :: "completed \<Rightarrow> string" where
  "read_codec codec_result =
     (if returncode codec_result = 0 then strip (stdout codec_result) else ''unknown'')"

text \<open>
  \<^verbatim>\<open>VideoProcessor.get_video_info\<close>. The whole body is inside
  \<^verbatim>\<open>try ... except Exception as e: return {"error": str(e), "path": video_path}\<close>,
  so every raise of the body ends in \<open>ErrorInfo\<close>.
\<close>

definition get_video_info :: "world \<Rightarrow> string \<Rightarrow> event list \<Rightarrow> info_dict \<times> event list" where
  "get_video_info w video_path t =
     (case subprocess_run w (ProbeDuration video_path) t of
        (Inl e, t1) \<Rightarrow> (ErrorInfo (str_exn e) video_path, t1)
      | (Inr duration_result, t1) \<Rightarrow>
     (case read_duration w duration_result of
        Inl e \<Rightarrow> (ErrorInfo (str_exn e) video_path, t1)
      | Inr d \<Rightarrow>
     (case subprocess_run w (ProbeSize video_path) t1 of
        (Inl e, t2) \<Rightarrow> (ErrorInfo (str_exn e) video_path, t2)
      | (Inr size_result, t2) \<Rightarrow>
     (case read_size w size_result of
        Inl e \<Rightarrow> (ErrorInfo (str_exn e) video_path, t2)
      | Inr (wd, ht) \<Rightarrow>
     (case subprocess_run w (ProbeCodec video_path) t2 of
        (Inl e, t3) \<Rightarrow> (ErrorInfo (str_exn e) video_path, t3)
      | (Inr codec_result, t3) \<Rightarrow>
          (VideoInfo \<lparr>duration = d, width = wd, height = ht,
             codec = read_codec codec_result, path = video_path,
             filename = path_name w video_path\<rparr>, t3))))))"

text \<open>
  The loop of \<^verbatim>\<open>extract_frames\<close> over \<^verbatim>\<open>range(1, num_frames + 1)\<close>. A capture
  that exits non-zero, or whose file is absent afterwards, is left out of the result;
  \<^verbatim>\<open>os.path.exists\<close> is asked only after a zero exit.
\<close>

fun capture_loop ::
  "world \<Rightarrow> string \<Rightarrow> string \<Rightarrow> real \<Rightarrow> int list \<Rightarrow> string list \<Rightarrow> event list
   \<Rightarrow> (exn + string list) \<times> event list" where
  "capture_loop w video_path output_dir interval [] extracted_frames t =
     (Inr extracted_frames, t)"
| "capture_loop w video_path output_dir interval (i # rest) extracted_frames t =
     (let timestamp = of_int i * interval;
          frame_filename = path_stem w video_path @ ''_frame_'' @ format_03d i @ ''.jpg'';
          frame_path = path_join w output_dir frame_filename
      in case subprocess_run w (CaptureFrame video_path timestamp frame_path) t of
           (Inl e, t1) \<Rightarrow> (Inl e, t1)
         | (Inr result, t1) \<Rightarrow>
             if returncode result = 0 then
               (case path_exists w frame_path t1 of
                  (True, t2) \<Rightarrow>
                    capture_loop w video_path output_dir interval rest
                      (extracted_frames @ [frame_path]) t2
                | (False, t2) \<Rightarrow>
                    capture_loop w video_path output_dir interval rest extracted_frames t2)
             else capture_loop w video_path output_dir interval rest extracted_frames t1)"

text \<open>The default output directory: \<^verbatim>\<open>os.path.dirname(video_path) or "."\<close>.\<close>

definition default_dir :: "world \<Rightarrow> string \<Rightarrow> string option \<Rightarrow> string" where
  "default_dir w video_path output_dir =
     (case output_dir of None \<Rightarrow> str_or (dirname w video_path) ''.'' | Some d \<Rightarrow> d)"

text \<open>
  \<^verbatim>\<open>VideoProcessor.extract_frames\<close>. Nothing is caught here: a raise of
  \<^verbatim>\<open>os.makedirs\<close> or of a capture, and the division by \<^verbatim>\<open>num_frames + 1 = 0\<close>,
  leave the function.
\<close>

definition extract_frames ::
  "world \<Rightarrow> string \<Rightarrow> int \<Rightarrow> string option \<Rightarrow> event list
   \<Rightarrow> (exn + string list) \<times> event list" where
  "extract_frames w video_path num_frames output_dir_arg t =
     (let output_dir = default_dir w video_path output_dir_arg
      in case os_makedirs w output_dir t of
           (Some e, t1) \<Rightarrow> (Inl e, t1)
         | (None, t1) \<Rightarrow>
        (case get_video_info w video_path t1 of
           (ErrorInfo m p, t2) \<Rightarrow> (Inr [], t2)
         | (VideoInfo info, t2) \<Rightarrow>
             if duration info \<le> 0 then (Inr [], t2)
             else if num_frames + 1 = 0 then (Inl (Exception zero_division_msg), t2)
             else capture_loop w video_path output_dir
                    (duration info / of_int (num_frames + 1)) [1..num_frames] [] t2))"

text \<open>\<^verbatim>\<open>VideoProcessor.extract_audio\<close>: the output path, or the empty string.\<close>

definition extract_audio ::
  "world \<Rightarrow> string \<Rightarrow> string option \<Rightarrow> event list \<Rightarrow> (exn + string) \<times> event list" where
  "extract_audio w video_path output_path_arg t =
     (let output_path =
            (case output_path_arg of
               None \<Rightarrow>
                 path_join w (str_or (dirname w video_path) ''.'')
                   (path_stem w video_path @ ''_audio.mp3'')
             | Some p \<Rightarrow> p)
      in case subprocess_run w (EncodeAudio video_path output_path) t of
           (Inl e, t1) \<Rightarrow> (Inl e, t1)
         | (Inr result, t1) \<Rightarrow>
             if returncode result = 0 then
               (case path_exists w output_path t1 of
                  (True, t2) \<Rightarrow> (Inr output_path, t2)
                | (False, t2) \<Rightarrow> (Inr '''', t2))
             else (Inr '''', t1))"

text \<open>
  \<^verbatim>\<open>VideoProcessor.split_video\<close>. The result of the segmenting command is not
  looked at; the directory is listed afterwards and the matching names, joined to
  the directory, are returned sorted.
\<close>

definition split_video ::
  "world \<Rightarrow> string \<Rightarrow> int \<Rightarrow> string option \<Rightarrow> event list
   \<Rightarrow> (exn + string list) \<times> event list" where
  "split_video w video_path segment_duration output_dir_arg t =
     (let output_dir = default_dir w video_path output_dir_arg
      in case os_makedirs w output_dir t of
           (Some e, t1) \<Rightarrow> (Inl e, t1)
         | (None, t1) \<Rightarrow>
        (case get_video_info w video_path t1 of
           (ErrorInfo m p, t2) \<Rightarrow> (Inr [], t2)
         | (VideoInfo info, t2) \<Rightarrow>
             if duration info \<le> 0 then (Inr [], t2)
             else
               (let output_pattern =
                      path_join w output_dir (path_stem w video_path @ ''_segment_%03d.mp4'')
                in case subprocess_run w
                          (SegmentCopy video_path segment_duration output_pattern) t2 of
                     (Inl e, t3) \<Rightarrow> (Inl e, t3)
                   | (Inr result, t3) \<Rightarrow>
                  (case os_listdir w output_dir t3 of
                     (Inl e, t4) \<Rightarrow> (Inl e, t4)
                   | (Inr names, t4) \<Rightarrow>
                       (let base_name = path_stem w video_path;
                            segments =
                              map (path_join w output_dir)
                                (filter (\<lambda>f. prefix (base_name @ ''_segment_'') f \<and>
                                               suffix ''.mp4'' f) names)
                        in (Inr (sort segments), t4))))))"

section \<open>YouTubeDownloader\<close>

text \<open>The options handed to \<^verbatim>\<open>yt_dlp.YoutubeDL\<close> besides the two quiet flags:
  \<open>None\<close> for no more, \<open>Some (format, outtmpl)\<close> for a download.\<close>

type_synonym ydl_opts = "(string \<times> string) option"

definition import_yt_dlp :: "world \<Rightarrow> event list \<Rightarrow> exn option \<times> event list" where
  "import_yt_dlp w t = (let t' = t @ [ImportYtDlp] in (import_out w t', t'))"

definition expanduser :: "world \<Rightarrow> string \<Rightarrow> event list \<Rightarrow> string \<times> event list" where
  "expanduser w p t = (let t' = t @ [Expanduser p] in (expanduser_out w t', t'))"

definition ydl_extract_info ::
  "world \<Rightarrow> ydl_opts \<Rightarrow> string \<Rightarrow> event list \<Rightarrow> (exn + yt_info) \<times> event list" where
  "ydl_extract_info w opts url t =
     (let t' = t @ [YtExtractInfo opts url] in (yt_extract_out w t', t'))"

definition ydl_download ::
  "world \<Rightarrow> ydl_opts \<Rightarrow> string \<Rightarrow> event list \<Rightarrow> exn option \<times> event list" where
  "ydl_download w opts url t =
     (let t' = t @ [YtDownload opts url] in (yt_download_out w t', t'))"

definition ydl_prepare_filename ::
  "world \<Rightarrow> ydl_opts \<Rightarrow> string \<Rightarrow> event list \<Rightarrow> (exn + string) \<times> event list" where
  "ydl_prepare_filename w opts url t =
     (let t' = t @ [YtPrepareFilename opts url] in (yt_filename_out w t', t'))"

text \<open>The dictionary \<^verbatim>\<open>quality_formats\<close>, and its entry for \<^verbatim>\<open>"720p"\<close>.\<close>

definition format_720p :: string where
  "format_720p = ''bestvideo[height<=720][ext=mp4]+bestaudio[ext=m4a]/best[height<=720]''"

definition quality_formats :: "(string \<times> string) list" where
  "quality_formats =
     [(''best'', ''bestvideo[ext=mp4]+bestaudio[ext=m4a]/best[ext=mp4]/best''),
      (''1080p'', ''bestvideo[height<=1080][ext=mp4]+bestaudio[ext=m4a]/best[height<=1080]''),
      (''720p'', format_720p),
      (''480p'', ''bestvideo[height<=480][ext=mp4]+bestaudio[ext=m4a]/best[height<=480]''),
      (''360p'', ''bestvideo[height<=360][ext=mp4]+bestaudio[ext=m4a]/best[height<=360]'')]"

text \<open>\<^verbatim>\<open>quality_formats.get(quality, quality_formats["720p"])\<close>\<close>

definition format_spec :: "string \<Rightarrow> string" where
  "format_spec quality =
     (case map_of quality_formats quality of Some f \<Rightarrow> f | None \<Rightarrow> format_720p)"

text \<open>The values the tool schema declares for \<^verbatim>\<open>quality\<close>.\<close>

definition quality_enum :: "string list" where
  "quality_enum = [''360p'', ''480p'', ''720p'', ''1080p'', ''best'']"

record download_fields =
  dl_video_path :: string
  dl_title :: string
  dl_duration :: int
  dl_uploader :: string
  dl_description :: string
  dl_output_dir :: string

text \<open>\<^verbatim>\<open>{"success": True, ...}\<close> or \<^verbatim>\<open>{"success": False, "error": m}\<close>.\<close>

datatype download_result = Downloaded download_fields | DownloadFailed string

text \<open>\<^verbatim>\<open>d.get(key, default)\<close> on a field that may be missing.\<close>

definition opt_default :: "'a \<Rightarrow> 'a option \<Rightarrow> 'a" where
  "opt_default d v = (case v of None \<Rightarrow> d | Some x \<Rightarrow> x)"

text \<open>The part of \<^verbatim>\<open>download_video\<close> inside \<^verbatim>\<open>try\<close>; a raise is \<open>Inl\<close>.
  Building the \<^verbatim>\<open>YoutubeDL\<close> object and leaving its \<^verbatim>\<open>with\<close> block are taken not
  to raise.\<close>

definition download_try ::
  "world \<Rightarrow> string \<Rightarrow> string \<Rightarrow> ydl_opts \<Rightarrow> event list
   \<Rightarrow> (exn + download_result) \<times> event list" where
  "download_try w url output_dir opts t =
     (case ydl_extract_info w opts url t of
        (Inl e, t1) \<Rightarrow> (Inl e, t1)
      | (Inr info, t1) \<Rightarrow>
     (let fields = (\<lambda>p. \<lparr>dl_video_path = p,
                          dl_title = opt_default ''unknown'' (yt_title info),
                          dl_duration = opt_default 0 (yt_duration info),
                          dl_uploader = opt_default ''unknown'' (yt_uploader info),
                          dl_description = take 200 (opt_default '''' (yt_description info)),
                          dl_output_dir = output_dir\<rparr>)
      in case ydl_download w opts url t1 of
        (Some e, t2) \<Rightarrow> (Inl e, t2)
      | (None, t2) \<Rightarrow>
     (case ydl_prepare_filename w opts url t2 of
        (Inl e, t3) \<Rightarrow> (Inl e, t3)
      | (Inr fname, t3) \<Rightarrow>
     (case with_suffix_mp4 w fname of
        Inl e \<Rightarrow> (Inl e, t3)
      | Inr video_path \<Rightarrow>
     (case path_exists w video_path t3 of
        (True, t4) \<Rightarrow> (Inr (Downloaded (fields video_path)), t4)
      | (False, t4) \<Rightarrow>
     (case os_listdir w output_dir t4 of
        (Inl e, t5) \<Rightarrow> (Inl e, t5)
      | (Inr names, t5) \<Rightarrow>
          (case filter (\<lambda>f. prefix (path_stem w fname) f \<and> \<not> suffix ''.part'' f) names of
             f # rest \<Rightarrow> (Inr (Downloaded (fields (path_join w output_dir f))), t5)
           | [] \<Rightarrow>
               (Inr (DownloadFailed ''Download completed but file not found''), t5))))))))"

text \<open>
  \<^verbatim>\<open>YouTubeDownloader.download_video\<close>. The import and \<^verbatim>\<open>os.makedirs\<close> are
  outside \<^verbatim>\<open>try\<close>; every raise inside it becomes a failed result.
\<close>

definition download_video ::
  "world \<Rightarrow> string \<Rightarrow> string option \<Rightarrow> string \<Rightarrow> event list
   \<Rightarrow> (exn + download_result) \<times> event list" where
  "download_video w url output_dir_arg quality t =
     (case import_yt_dlp w t of
        (Some e, t1) \<Rightarrow> (Inl e, t1)
      | (None, t1) \<Rightarrow>
     (case (case output_dir_arg of
              None \<Rightarrow>
                (case expanduser w ''~'' t1 of
                   (home_dir, t2) \<Rightarrow> (path_join w home_dir ''video-downloads'', t2))
            | Some d \<Rightarrow> (d, t1)) of
        (output_dir, t2) \<Rightarrow>
     (case os_makedirs w output_dir t2 of
        (Some e, t3) \<Rightarrow> (Inl e, t3)
      | (None, t3) \<Rightarrow>
     (case download_try w url output_dir
             (Some (format_spec quality, path_join w output_dir ''%(title)s.%(ext)s'')) t3 of
        (Inl e, t4) \<Rightarrow> (Inr (DownloadFailed (str_exn e)), t4)
      | (Inr r, t4) \<Rightarrow> (Inr r, t4)))))"

record url_info =
  ui_title :: string
  ui_duration :: int
  ui_uploader :: string
  ui_description :: string
  ui_view_count :: int
  ui_like_count :: int
  ui_upload_date :: string
  ui_url :: string

datatype url_info_result = UrlInfo url_info | UrlInfoFailed string

text \<open>\<^verbatim>\<open>YouTubeDownloader.get_video_info_url\<close>\<close>

definition get_video_info_url ::
  "world \<Rightarrow> string \<Rightarrow> event list \<Rightarrow> (exn + url_info_result) \<times> event list" where
  "get_video_info_url w url t =
     (case import_yt_dlp w t of
        (Some e, t1) \<Rightarrow> (Inl e, t1)
      | (None, t1) \<Rightarrow>
     (case ydl_extract_info w None url t1 of
        (Inl e, t2) \<Rightarrow> (Inr (UrlInfoFailed (str_exn e)), t2)
      | (Inr info, t2) \<Rightarrow>
          (Inr (UrlInfo \<lparr>ui_title = opt_default ''unknown'' (yt_title info),
                  ui_duration = opt_default 0 (yt_duration info),
                  ui_uploader = opt_default ''unknown'' (yt_uploader info),
                  ui_description = take 500 (opt_default '''' (yt_description info)),
                  ui_view_count = opt_default 0 (yt_view_count info),
                  ui_like_count = opt_default 0 (yt_like_count info),
                  ui_upload_date = opt_default ''unknown'' (yt_upload_date info),
                  ui_url = url\<rparr>), t2)))"

section \<open>AIAnalyzer\<close>

definition vision_model :: string where
  "vision_model = ''meta-llama/llama-4-scout-17b-16e-instruct''"

definition audio_model :: string where
  "audio_model = ''whisper-large-v3-turbo''"

text \<open>The loop of \<^verbatim>\<open>analyze_frames\<close> that opens and reads every frame. The bytes are
  sent base64-encoded inside a data URL; the event keeps the bytes.\<close>

fun read_frames ::
  "world \<Rightarrow> string list \<Rightarrow> string list \<Rightarrow> event list \<Rightarrow> (exn + string list) \<times> event list" where
  "read_frames w [] images t = (Inr images, t)"
| "read_frames w (frame_path # rest) images t =
     (case read_file w frame_path t of
        (Inl e, t1) \<Rightarrow> (Inl e, t1)
      | (Inr bytes, t1) \<Rightarrow> read_frames w rest (images @ [bytes]) t1)"

definition chat_completion ::
  "world \<Rightarrow> string \<Rightarrow> string \<Rightarrow> string list \<Rightarrow> event list
   \<Rightarrow> (exn + string option) \<times> event list" where
  "chat_completion w model prompt images t =
     (let t' = t @ [ChatCompletion model prompt images] in (chat_out w t', t'))"

definition audio_transcription ::
  "world \<Rightarrow> string \<Rightarrow> string \<Rightarrow> event list \<Rightarrow> (exn + string) \<times> event list" where
  "audio_transcription w model bytes t =
     (let t' = t @ [Transcription model bytes] in (transcription_out w t', t'))"

text \<open>\<^verbatim>\<open>AIAnalyzer.analyze_frames\<close>: one request; \<^verbatim>\<open>content or ""\<close>.\<close>

definition analyze_frames ::
  "world \<Rightarrow> string list \<Rightarrow> string \<Rightarrow> event list \<Rightarrow> (exn + string) \<times> event list" where
  "analyze_frames w frame_paths prompt t =
     (case read_frames w frame_paths [] t of
        (Inl e, t1) \<Rightarrow> (Inl e, t1)
      | (Inr images, t1) \<Rightarrow>
     (case chat_completion w vision_model prompt images t1 of
        (Inl e, t2) \<Rightarrow> (Inl e, t2)
      | (Inr content, t2) \<Rightarrow> (Inr (opt_default '''' content), t2)))"

text \<open>\<^verbatim>\<open>AIAnalyzer.transcribe_audio\<close>\<close>

definition transcribe_audio ::
  "world \<Rightarrow> string \<Rightarrow> event list \<Rightarrow> (exn + string) \<times> event list" where
  "transcribe_audio w audio_path t =
     (case read_file w audio_path t of
        (Inl e, t1) \<Rightarrow> (Inl e, t1)
      | (Inr bytes, t1) \<Rightarrow>
     (case audio_transcription w audio_model bytes t1 of
        (Inl e, t2) \<Rightarrow> (Inl e, t2)
      | (Inr transcription, t2) \<Rightarrow> (Inr transcription, t2)))"

record analysis_fields =
  visual_analysis :: string
  frames :: "string list"
  transcript :: "string option"
  audio_error :: "string option"

text \<open>The dictionary \<^verbatim>\<open>analyze_video\<close> returns: \<^verbatim>\<open>{"error": m}\<close>, or the analysis
  with its optional keys \<^verbatim>\<open>transcript\<close> and \<^verbatim>\<open>audio_error\<close> (\<open>None\<close> is a
  missing key).\<close>

datatype analysis = AnalysisError string | Analysis analysis_fields

text \<open>
  \<^verbatim>\<open>AIAnalyzer.analyze_video\<close>. Only the transcription is inside a
  \<^verbatim>\<open>try\<close>; the audio branch is entered only when \<^verbatim>\<open>extract_audio\<close> returned a
  non-empty path.
\<close>

definition analyze_video ::
  "world \<Rightarrow> string \<Rightarrow> string \<Rightarrow> int \<Rightarrow> bool \<Rightarrow> event list
   \<Rightarrow> (exn + analysis) \<times> event list" where
  "analyze_video w video_path prompt num_frames include_audio t =
     (case extract_frames w video_path num_frames None t of
        (Inl e, t1) \<Rightarrow> (Inl e, t1)
      | (Inr frame_paths, t1) \<Rightarrow>
          if frame_paths = [] then
            (Inr (AnalysisError ''Failed to extract frames from video''), t1)
          else
     (case analyze_frames w frame_paths prompt t1 of
        (Inl e, t2) \<Rightarrow> (Inl e, t2)
      | (Inr visual_result, t2) \<Rightarrow>
     (let result = \<lparr>visual_analysis = visual_result, frames = frame_paths,
                      transcript = None, audio_error = None\<rparr>
      in if include_audio then
           (case extract_audio w video_path None t2 of
              (Inl e, t3) \<Rightarrow> (Inl e, t3)
            | (Inr audio_path, t3) \<Rightarrow>
                if audio_path \<noteq> '''' then
                  (case transcribe_audio w audio_path t3 of
                     (Inl e, t4) \<Rightarrow>
                       (Inr (Analysis (result\<lparr>audio_error := Some (str_exn e)\<rparr>)), t4)
                   | (Inr text, t4) \<Rightarrow>
                       (Inr (Analysis (result\<lparr>transcript := Some text\<rparr>)), t4))
                else (Inr (Analysis result), t3))
         else (Inr (Analysis result), t2))))"

section \<open>The server: global state, credential, dispatcher\<close>

text \<open>
  The module's global \<^verbatim>\<open>ai_analyzer\<close> (\<open>None\<close>, or the analyzer built with the given
  key) and the history of events.
\<close>

record server_state =
  ai_analyzer :: "string option"
  events :: "event list"

text \<open>\<^verbatim>\<open>AIAnalyzer(api_key)\<close>, that is \<^verbatim>\<open>AsyncGroq(api_key=api_key)\<close>: \<open>Some e\<close> is a
  raise of the constructor.\<close>

definition new_client :: "world \<Rightarrow> string \<Rightarrow> event list \<Rightarrow> exn option \<times> event list" where
  "new_client w k t = (let t' = t @ [NewClient k] in (new_client_out w t', t'))"

text \<open>\<^verbatim>\<open>check_api_key\<close>: \<^verbatim>\<open>bool(os.environ.get("GROQ_API_KEY"))\<close>; an empty value
  is falsy.\<close>

definition check_api_key :: "world \<Rightarrow> event list \<Rightarrow> bool \<times> event list" where
  "check_api_key w t =
     (case os_getenv w ''GROQ_API_KEY'' t of
        (None, t1) \<Rightarrow> (False, t1)
      | (Some k, t1) \<Rightarrow> (k \<noteq> '''', t1))"

text \<open>\<^verbatim>\<open>init_analyzer\<close>\<close>

definition init_analyzer :: "world \<Rightarrow> server_state \<Rightarrow> bool \<times> server_state" where
  "init_analyzer w s =
     (case os_getenv w ''GROQ_API_KEY'' (events s) of
        (None, t1) \<Rightarrow> (False, s\<lparr>events := t1\<rparr>)
      | (Some api_key, t1) \<Rightarrow>
          if api_key \<noteq> '''' then
            (case new_client w api_key t1 of
               (Some e, t2) \<Rightarrow> (False, s\<lparr>events := t2\<rparr>)
             | (None, t2) \<Rightarrow> (True, s\<lparr>ai_analyzer := Some api_key, events := t2\<rparr>))
          else (False, s\<lparr>events := t1\<rparr>))"

text \<open>
  The argument bag of a call, restricted to the keys \<^verbatim>\<open>call_tool\<close> reads; \<open>None\<close> is
  a missing key. A key that is present holds a value of the type its tool schema
  declares (a string or an integer).
\<close>

record arguments =
  arg_video_path :: "string option"
  arg_num_frames :: "int option"
  arg_output_dir :: "string option"
  arg_output_path :: "string option"
  arg_segment_duration :: "int option"
  arg_url :: "string option"
  arg_quality :: "string option"
  arg_prompt :: "string option"

datatype text_content = TextContent string

definition ai_tools :: "string list" where
  "ai_tools = [''analyze_video'', ''summarize_video'', ''transcribe_video'',
     ''analyze_video_complete'']"

definition missing_key_text :: string where
  "missing_key_text =
     ''Error: GROQ_API_KEY environment variable is required for AI features.\<newline>'' @
     ''Set it with: export GROQ_API_KEY=your-key\<newline>'' @
     ''Or use FFmpeg-only tools: get_video_info, extract_video_frames, extract_video_audio, split_video''"

text \<open>\<^verbatim>\<open>"\n".join([f"  {i + 1}. {x}" for i, x in enumerate(xs)])\<close>\<close>

definition numbered_list :: "string list \<Rightarrow> string" where
  "numbered_list xs =
     join_with ''\<newline>''
       (map (\<lambda>(i, x). ''  '' @ str_nat (i + 1) @ ''. '' @ x) (enumerate 0 xs))"

subsection \<open>The branches of \<^verbatim>\<open>call_tool\<close>, one per tool name\<close>

definition tool_get_video_info ::
  "world \<Rightarrow> string \<Rightarrow> event list \<Rightarrow> (exn + string) \<times> event list" where
  "tool_get_video_info w video_path t =
     (case get_video_info w video_path t of
        (ErrorInfo m p, t1) \<Rightarrow> (Inr (''Error: '' @ m), t1)
      | (VideoInfo info, t1) \<Rightarrow>
          (Inr (''Video Information:\<newline>'' @
                ''- File: '' @ filename info @ ''\<newline>'' @
                ''- Duration: '' @ format_f 2 (duration info) @ '' seconds ('' @
                   format_f 1 (float_div (duration info) 60) @ '' minutes)\<newline>'' @
                ''- Resolution: '' @ str_int (width info) @ ''x'' @ str_int (height info) @
                   ''\<newline>'' @
                ''- Video Codec: '' @ codec info), t1))"

definition tool_extract_video_frames ::
  "world \<Rightarrow> arguments \<Rightarrow> string \<Rightarrow> event list \<Rightarrow> (exn + string) \<times> event list" where
  "tool_extract_video_frames w a video_path t =
     (let num_frames = min (opt_default 5 (arg_num_frames a)) 20;
          output_dir = arg_output_dir a
      in case extract_frames w video_path num_frames output_dir t of
           (Inl e, t1) \<Rightarrow> (Inl e, t1)
         | (Inr frame_paths, t1) \<Rightarrow>
             if frame_paths \<noteq> [] then
               (let result = ''Successfully extracted '' @ str_nat (length frame_paths) @
                               '' frames:\<newline>'' @ numbered_list frame_paths
                in case check_api_key w t1 of
                     (True, t2) \<Rightarrow> (Inr result, t2)
                   | (False, t2) \<Rightarrow>
                       (Inr (result @
                          ''\<newline>\<newline>You can analyze these images with your AI model (Kimi).''),
                        t2))
             else (Inr ''Error: Failed to extract frames from video.'', t1))"

definition tool_extract_video_audio ::
  "world \<Rightarrow> arguments \<Rightarrow> string \<Rightarrow> event list \<Rightarrow> (exn + string) \<times> event list" where
  "tool_extract_video_audio w a video_path t =
     (case extract_audio w video_path (arg_output_path a) t of
        (Inl e, t1) \<Rightarrow> (Inl e, t1)
      | (Inr audio_file, t1) \<Rightarrow>
          if audio_file \<noteq> '''' then
            (let result = ''Successfully extracted audio to:\<newline>  '' @ audio_file
             in case check_api_key w t1 of
                  (True, t2) \<Rightarrow>
                    (Inr (result @ ''\<newline>\<newline>You can transcribe this with: transcribe_video''),
                     t2)
                | (False, t2) \<Rightarrow> (Inr result, t2))
          else (Inr ''Error: Failed to extract audio from video.'', t1))"

definition tool_split_video ::
  "world \<Rightarrow> arguments \<Rightarrow> string \<Rightarrow> event list \<Rightarrow> (exn + string) \<times> event list" where
  "tool_split_video w a video_path t =
     (let segment_duration = opt_default 60 (arg_segment_duration a);
          output_dir = arg_output_dir a
      in case split_video w video_path segment_duration output_dir t of
           (Inl e, t1) \<Rightarrow> (Inl e, t1)
         | (Inr segments, t1) \<Rightarrow>
             if segments \<noteq> [] then
               (Inr (''Successfully split into '' @ str_nat (length segments) @
                     '' segments ('' @ str_int segment_duration @ ''s each):\<newline>'' @
                     numbered_list segments), t1)
             else (Inr ''Error: Failed to split video into segments.'', t1))"

definition tool_get_youtube_info ::
  "world \<Rightarrow> arguments \<Rightarrow> event list \<Rightarrow> (exn + string) \<times> event list" where
  "tool_get_youtube_info w a t =
     (let url = opt_default '''' (arg_url a)
      in if url = '''' then (Inr ''Error: YouTube URL is required'', t)
         else
           (case get_video_info_url w url t of
              (Inl e, t1) \<Rightarrow> (Inl e, t1)
            | (Inr (UrlInfoFailed m), t1) \<Rightarrow> (Inr (''Error: '' @ m), t1)
            | (Inr (UrlInfo info), t1) \<Rightarrow>
                (Inr (''YouTube Video Information:\<newline>'' @
                      ''- Title: '' @ ui_title info @ ''\<newline>'' @
                      ''- Duration: '' @ str_int (ui_duration info) @ '' seconds ('' @
                         format_f 1 (float_div (of_int (ui_duration info)) 60) @ '' minutes)\<newline>'' @
                      ''- Uploader: '' @ ui_uploader info @ ''\<newline>'' @
                      ''- Views: '' @ format_comma (ui_view_count info) @ ''\<newline>'' @
                      ''- Likes: '' @ format_comma (ui_like_count info) @ ''\<newline>'' @
                      ''- Upload Date: '' @ ui_upload_date info @ ''\<newline>'' @
                      ''- Description: '' @ take 200 (ui_description info) @ ''...\<newline>'' @
                      ''\<newline>'' @
                      ''To download this video, use: download_youtube_video''), t1)))"

definition tool_download_youtube_video ::
  "world \<Rightarrow> arguments \<Rightarrow> event list \<Rightarrow> (exn + string) \<times> event list" where
  "tool_download_youtube_video w a t =
     (let url = opt_default '''' (arg_url a)
      in if url = '''' then (Inr ''Error: YouTube URL is required'', t)
         else
           (let quality = opt_default ''720p'' (arg_quality a);
                output_dir = arg_output_dir a
            in case download_video w url output_dir quality t of
                 (Inl e, t1) \<Rightarrow> (Inl e, t1)
               | (Inr (DownloadFailed m), t1) \<Rightarrow> (Inr (''Error downloading video: '' @ m), t1)
               | (Inr (Downloaded d), t1) \<Rightarrow>
                   (let dur = dl_duration d;
                        duration_min = (if dur \<noteq> 0 then float_div (of_int dur) 60 else 0)
                    in (Inr (''Successfully downloaded YouTube video!\<newline>'' @
                             ''\<newline>'' @
                             ''Title: '' @ dl_title d @ ''\<newline>'' @
                             ''Duration: '' @ str_int dur @ '' seconds ('' @
                                format_f 1 duration_min @ '' minutes)\<newline>'' @
                             ''Uploader: '' @ dl_uploader d @ ''\<newline>'' @
                             ''Saved to: '' @ dl_video_path d @ ''\<newline>'' @
                             ''\<newline>'' @
                             ''You can now analyze this video:\<newline>'' @
                             ''- Extract frames: extract_video_frames\<newline>'' @
                             ''- Extract audio: extract_video_audio\<newline>'' @
                             ''- Get info: get_video_info\<newline>'' @
                             ''- AI analysis: analyze_video (requires API key)''), t1))))"

definition default_prompt :: string where
  "default_prompt =
     ''Describe this video in detail, including scenes, actions, objects, people, and context''"

definition summary_prompt :: string where
  "summary_prompt =
     ''Analyze this video and provide a comprehensive summary:\<newline>'' @
     ''1. Main topic or subject\<newline>'' @
     ''2. Key events or actions in chronological order\<newline>'' @
     ''3. Setting and context\<newline>'' @
     ''4. Visual elements (objects, people, text visible)\<newline>'' @
     ''5. Overall narrative or message\<newline>'' @
     ''6. Important details worth noting''"

definition complete_prompt :: string where
  "complete_prompt =
     ''Analyze this video thoroughly. Describe:\<newline>'' @
     ''1. Visual scenes, settings, and environments\<newline>'' @
     ''2. Actions, movements, and events\<newline>'' @
     ''3. Objects, people, and visual elements\<newline>'' @
     ''4. Visual context and atmosphere''"

definition tool_analyze_video ::
  "world \<Rightarrow> string option \<Rightarrow> arguments \<Rightarrow> string \<Rightarrow> event list
   \<Rightarrow> (exn + string) \<times> event list" where
  "tool_analyze_video w analyzer a video_path t =
     (let prompt = opt_default default_prompt (arg_prompt a);
          num_frames = min (opt_default 5 (arg_num_frames a)) 10
      in if analyzer \<noteq> None then
           (case analyze_video w video_path prompt num_frames False t of
              (Inl e, t1) \<Rightarrow> (Inl e, t1)
            | (Inr (AnalysisError m), t1) \<Rightarrow> (Inr (''Error: '' @ m), t1)
            | (Inr (Analysis r), t1) \<Rightarrow>
                (Inr (''=== AI Video Analysis ===\<newline>\<newline>'' @ visual_analysis r @
                      ''\<newline>\<newline>Analyzed '' @ str_nat (length (frames r)) @ '' frames.''),
                 t1))
         else (Inr ''Error: AI analyzer not available'', t))"

definition tool_summarize_video ::
  "world \<Rightarrow> string option \<Rightarrow> arguments \<Rightarrow> string \<Rightarrow> event list
   \<Rightarrow> (exn + string) \<times> event list" where
  "tool_summarize_video w analyzer a video_path t =
     (let num_frames = min (opt_default 8 (arg_num_frames a)) 10
      in if analyzer \<noteq> None then
           (case analyze_video w video_path summary_prompt num_frames False t of
              (Inl e, t1) \<Rightarrow> (Inl e, t1)
            | (Inr (AnalysisError m), t1) \<Rightarrow> (Inr (''Error: '' @ m), t1)
            | (Inr (Analysis r), t1) \<Rightarrow>
                (Inr (''=== Video Summary ===\<newline>\<newline>'' @ visual_analysis r), t1))
         else (Inr ''Error: AI analyzer not available'', t))"

definition tool_transcribe_video ::
  "world \<Rightarrow> string option \<Rightarrow> string \<Rightarrow> event list \<Rightarrow> (exn + string) \<times> event list" where
  "tool_transcribe_video w analyzer video_path t =
     (if analyzer \<noteq> None then
        (case extract_audio w video_path None t of
           (Inl e, t1) \<Rightarrow> (Inl e, t1)
         | (Inr audio_path, t1) \<Rightarrow>
             if audio_path = '''' then (Inr ''Error: Failed to extract audio from video'', t1)
             else
               (case transcribe_audio w audio_path t1 of
                  (Inl e, t2) \<Rightarrow> (Inr (''Error transcribing audio: '' @ str_exn e), t2)
                | (Inr text, t2) \<Rightarrow>
                    (Inr (''=== Audio Transcription ===\<newline>\<newline>'' @ text), t2)))
      else (Inr ''Error: AI analyzer not available'', t))"

definition tool_analyze_video_complete ::
  "world \<Rightarrow> string option \<Rightarrow> arguments \<Rightarrow> string \<Rightarrow> event list
   \<Rightarrow> (exn + string) \<times> event list" where
  "tool_analyze_video_complete w analyzer a video_path t =
     (let num_frames = min (opt_default 5 (arg_num_frames a)) 10
      in if analyzer \<noteq> None then
           (case analyze_video w video_path complete_prompt num_frames True t of
              (Inl e, t1) \<Rightarrow> (Inl e, t1)
            | (Inr (AnalysisError m), t1) \<Rightarrow> (Inr (''Error: '' @ m), t1)
            | (Inr (Analysis r), t1) \<Rightarrow>
                (let result = ''=== VISUAL ANALYSIS ===\<newline>'' @ visual_analysis r
                 in case transcript r of
                      Some text \<Rightarrow>
                        (Inr (result @ ''\<newline>\<newline>=== AUDIO TRANSCRIPTION ===\<newline>'' @ text), t1)
                    | None \<Rightarrow>
                        (case audio_error r of
                           Some m \<Rightarrow>
                             (Inr (result @ ''\<newline>\<newline>Note: Audio analysis unavailable ('' @
                                   m @ '')''), t1)
                         | None \<Rightarrow> (Inr result, t1))))
         else (Inr ''Error: AI analyzer not available'', t))"

subsection \<open>\<^verbatim>\<open>call_tool\<close>\<close>

text \<open>The \<^verbatim>\<open>if name == ... elif ...\<close> chain, ending in the unknown-tool text.\<close>

definition route ::
  "world \<Rightarrow> string \<Rightarrow> arguments \<Rightarrow> string \<Rightarrow> string option \<Rightarrow> event list
   \<Rightarrow> (exn + string) \<times> event list" where
  "route w name a video_path analyzer t =
     (if name = ''get_video_info'' then tool_get_video_info w video_path t
      else if name = ''extract_video_frames'' then tool_extract_video_frames w a video_path t
      else if name = ''extract_video_audio'' then tool_extract_video_audio w a video_path t
      else if name = ''split_video'' then tool_split_video w a video_path t
      else if name = ''get_youtube_info'' then tool_get_youtube_info w a t
      else if name = ''download_youtube_video'' then tool_download_youtube_video w a t
      else if name = ''analyze_video'' then tool_analyze_video w analyzer a video_path t
      else if name = ''summarize_video'' then tool_summarize_video w analyzer a video_path t
      else if name = ''transcribe_video'' then tool_transcribe_video w analyzer video_path t
      else if name = ''analyze_video_complete''
        then tool_analyze_video_complete w analyzer a video_path t
      else (Inr (''Unknown tool: '' @ name), t))"

text \<open>
  The first step of the body: for the four AI tools,
  \<^verbatim>\<open>not ai_analyzer and not await init_analyzer()\<close> decides whether the call stops
  with the credential text; \<^verbatim>\<open>init_analyzer\<close> runs only when no analyzer exists
  yet. \<open>True\<close> lets the call go on.
\<close>

definition ai_precheck :: "world \<Rightarrow> string \<Rightarrow> server_state \<Rightarrow> bool \<times> server_state" where
  "ai_precheck w name s =
     (if name \<in> set ai_tools \<and> ai_analyzer s = None then init_analyzer w s else (True, s))"

text \<open>
  The body of the outer \<^verbatim>\<open>try\<close>: the credential check, the check that a
  non-empty \<^verbatim>\<open>video_path\<close> exists, then the chain.
\<close>

definition call_tool_body ::
  "world \<Rightarrow> string \<Rightarrow> arguments \<Rightarrow> server_state \<Rightarrow> (exn + string) \<times> server_state" where
  "call_tool_body w name a s =
     (case ai_precheck w name s of
        (False, s1) \<Rightarrow> (Inr missing_key_text, s1)
      | (True, s1) \<Rightarrow>
          (let video_path = opt_default '''' (arg_video_path a)
           in case (if video_path \<noteq> '''' then path_exists w video_path (events s1)
                    else (True, events s1)) of
                (False, t2) \<Rightarrow>
                  (Inr (''Error: Video file not found: '' @ video_path), s1\<lparr>events := t2\<rparr>)
              | (True, t2) \<Rightarrow>
                  (case route w name a video_path (ai_analyzer s1) t2 of
                     (r, t3) \<Rightarrow> (r, s1\<lparr>events := t3\<rparr>))))"

text \<open>\<^verbatim>\<open>call_tool\<close>: the body, and the outer
  \<^verbatim>\<open>except Exception as e: return [TextContent(type="text", text=f"Error: {str(e)}")]\<close>.\<close>

definition call_tool ::
  "world \<Rightarrow> string \<Rightarrow> arguments \<Rightarrow> server_state \<Rightarrow> text_content list \<times> server_state" where
  "call_tool w name a s =
     (case call_tool_body w name a s of
        (Inl e, s') \<Rightarrow> ([TextContent (''Error: '' @ str_exn e)], s')
      | (Inr result, s') \<Rightarrow> ([TextContent result], s'))"

section \<open>The tool catalog and observations on histories\<close>

text \<open>The names \<^verbatim>\<open>list_tools\<close> declares, in its order.\<close>

definition tool_names :: "string list" where
  "tool_names = [''get_video_info'', ''extract_video_frames'', ''extract_video_audio'',
     ''split_video'', ''get_youtube_info'', ''download_youtube_video'', ''analyze_video'',
     ''summarize_video'', ''transcribe_video'', ''analyze_video_complete'']"

text \<open>The \<^verbatim>\<open>default\<close>, \<^verbatim>\<open>minimum\<close> and \<^verbatim>\<open>maximum\<close> an input schema of
  \<^verbatim>\<open>list_tools\<close> declares for an integer parameter.\<close>

record int_schema =
  sch_default :: int
  sch_minimum :: int
  sch_maximum :: int

text \<open>The schema of \<^verbatim>\<open>num_frames\<close>, for each tool that declares it.\<close>

definition num_frames_schema :: "(string \<times> int_schema) list" where
  "num_frames_schema =
     [(''extract_video_frames'', \<lparr>sch_default = 5, sch_minimum = 1, sch_maximum = 20\<rparr>),
      (''analyze_video'', \<lparr>sch_default = 5, sch_minimum = 1, sch_maximum = 10\<rparr>),
      (''summarize_video'', \<lparr>sch_default = 8, sch_minimum = 3, sch_maximum = 10\<rparr>),
      (''analyze_video_complete'', \<lparr>sch_default = 5, sch_minimum = 1, sch_maximum = 10\<rparr>)]"

text \<open>The schema of \<^verbatim>\<open>segment_duration\<close> of \<^verbatim>\<open>split_video\<close>.\<close>

definition segment_duration_schema :: int_schema where
  "segment_duration_schema = \<lparr>sch_default = 60, sch_minimum = 10, sch_maximum = 300\<rparr>"

text \<open>
  A backend call is every event but the three the dispatcher's own checks make: reading
  the environment, asking whether a path exists, and building the API client object.
\<close>

fun backend_call :: "event \<Rightarrow> bool" where
  "backend_call (Getenv k) = False"
| "backend_call (Exists p) = False"
| "backend_call (NewClient k) = False"
| "backend_call e = True"

text \<open>The timestamps of the frame captures of a history, in order.\<close>

fun capture_timestamps :: "event list \<Rightarrow> real list" where
  "capture_timestamps [] = []"
| "capture_timestamps (Run (CaptureFrame p ts out) # t) = ts # capture_timestamps t"
| "capture_timestamps (e # t) = capture_timestamps t"

text \<open>Whether a history holds a run of the segmenting command.\<close>

fun segmenting_run :: "event \<Rightarrow> bool" where
  "segmenting_run (Run (SegmentCopy p d out)) = True"
| "segmenting_run e = False"

section \<open>A concrete world\<close>

text \<open>
  A world to run the functions in: a ten-second 1280x720 h264 clip, every command
  exits with 0, every path asked for exists, no credential is set, the download
  library finds one video. The path functions are the POSIX ones of CPython 3.8 to
  3.13; \<^verbatim>\<open>float\<close> and \<^verbatim>\<open>int\<close> read plain decimal spellings.
\<close>

definition last_event :: "event list \<Rightarrow> event option" where
  "last_event t = (case rev t of [] \<Rightarrow> None | e # r \<Rightarrow> Some e)"

text \<open>
  \<^verbatim>\<open>repr(s)\<close> of a string, as the messages of \<^verbatim>\<open>float\<close> and \<^verbatim>\<open>int\<close> show their
  argument: single quotes, or double quotes when the string holds a single quote and no
  double quote; a backslash before a backslash and before the enclosing quote;
  \<^verbatim>\<open>\n\<close>, \<^verbatim>\<open>\r\<close>, \<^verbatim>\<open>\t\<close>; \<^verbatim>\<open>\xNN\<close> for the other characters that are not
  printable.
\<close>

definition py_printable :: "char \<Rightarrow> bool" where
  "py_printable c =
     (let n = (of_char c :: nat) in \<not> (n < 32 \<or> (127 \<le> n \<and> n \<le> 160) \<or> n = 173))"

definition py_escape :: "char \<Rightarrow> char \<Rightarrow> string" where
  "py_escape q c =
     (if c = CHR 0x5C then [CHR 0x5C, CHR 0x5C]
      else if c = q then [CHR 0x5C, q]
      else if c = CHR 0x0A then [CHR 0x5C, CHR ''n'']
      else if c = CHR 0x0D then [CHR 0x5C, CHR ''r'']
      else if c = CHR 0x09 then [CHR 0x5C, CHR ''t'']
      else if py_printable c then [c]
      else [CHR 0x5C, CHR ''x'', ''0123456789abcdef'' ! ((of_char c :: nat) div 16),
            ''0123456789abcdef'' ! ((of_char c :: nat) mod 16)])"

definition py_quote :: "string \<Rightarrow> string" where
  "py_quote s =
     (let q = (if CHR 0x27 \<in> set s \<and> CHR 0x22 \<notin> set s then CHR 0x22 else CHR 0x27)
      in [q] @ concat (map (py_escape q) s) @ [q])"

definition demo_run :: "event list \<Rightarrow> exn + completed" where
  "demo_run t =
     (case last_event t of
        Some (Run (ProbeDuration p)) \<Rightarrow> Inr \<lparr>returncode = 0, stdout = ''10.000000\<newline>''\<rparr>
      | Some (Run (ProbeSize p)) \<Rightarrow> Inr \<lparr>returncode = 0, stdout = ''1280x720\<newline>''\<rparr>
      | Some (Run (ProbeCodec p)) \<Rightarrow> Inr \<lparr>returncode = 0, stdout = ''h264\<newline>''\<rparr>
      | _ \<Rightarrow> Inr \<lparr>returncode = 0, stdout = ''''\<rparr>)"

definition is_digit :: "char \<Rightarrow> bool" where
  "is_digit c \<longleftrightarrow> c \<in> set ''0123456789''"

definition digits_value :: "string \<Rightarrow> nat" where
  "digits_value ds = foldl (\<lambda>n c. 10 * n + (of_char c - 48)) 0 ds"

text \<open>An optional sign in front of a number.\<close>

definition split_sign :: "string \<Rightarrow> bool \<times> string" where
  "split_sign s =
     (if prefix ''-'' s then (True, drop 1 s)
      else if prefix ''+'' s then (False, drop 1 s)
      else (False, s))"

text \<open>
  \<^verbatim>\<open>float(s)\<close> on a plain decimal spelling (a sign, digits, a point, digits): the
  double nearest to the decimal number. Everything else raises here; the spellings with
  an exponent, \<^verbatim>\<open>inf\<close> and \<^verbatim>\<open>nan\<close>, which Python also accepts, are not printed
  in this world.
\<close>

definition demo_float :: "string \<Rightarrow> exn + real" where
  "demo_float s =
     (let (neg, body) = split_sign s;
          ip = takeWhile is_digit body;
          rest = dropWhile is_digit body;
          fp = drop 1 rest
      in if (rest = [] \<or> prefix ''.'' rest) \<and> list_all is_digit fp \<and> (ip \<noteq> [] \<or> fp \<noteq> [])
         then Inr (round_double
                ((if neg then - 1 else 1) *
                 (real (digits_value ip) + real (digits_value fp) / 10 ^ length fp)))
         else Inl (Exception (''could not convert string to float: '' @ py_quote s)))"

text \<open>\<^verbatim>\<open>int(s)\<close> on a sign and plain digits; everything else raises here.\<close>

definition demo_int :: "string \<Rightarrow> exn + int" where
  "demo_int s =
     (let (neg, body) = split_sign s
      in if body \<noteq> [] \<and> list_all is_digit body
         then Inr ((if neg then - 1 else 1) * int (digits_value body))
         else Inl (Exception (''invalid literal for int() with base 10: '' @ py_quote s)))"

definition posix_dirname :: "string \<Rightarrow> string" where
  "posix_dirname p =
     (let head = rev (dropWhile (\<lambda>c. c \<noteq> CHR ''/'') (rev p))
      in if head \<noteq> [] \<and> \<not> list_all (\<lambda>c. c = CHR ''/'') head
         then rev (dropWhile (\<lambda>c. c = CHR ''/'') (rev head)) else head)"

definition posix_join :: "string \<Rightarrow> string \<Rightarrow> string" where
  "posix_join a b =
     (if prefix ''/'' b then b
      else if a = [] \<or> suffix ''/'' a then a @ b
      else a @ ''/'' @ b)"

text \<open>
  A \<^verbatim>\<open>pathlib\<close> path: the root (\<^verbatim>\<open>/\<close>, exactly two slashes, or none) and the
  components, without the empty ones and the single dots; \<^verbatim>\<open>str\<close> joins them again.
\<close>

definition posix_root :: "string \<Rightarrow> string" where
  "posix_root p =
     (if prefix ''//'' p \<and> \<not> prefix ''///'' p then ''//''
      else if prefix ''/'' p then ''/'' else '''')"

definition posix_parts :: "string \<Rightarrow> string list" where
  "posix_parts p = filter (\<lambda>c. c \<noteq> [] \<and> c \<noteq> ''.'') (split_on (CHR ''/'') p)"

definition posix_str :: "string \<Rightarrow> string" where
  "posix_str p =
     (let s = posix_root p @ join_with ''/'' (posix_parts p) in if s = [] then ''.'' else s)"

definition posix_name :: "string \<Rightarrow> string" where
  "posix_name p = (case rev (posix_parts p) of [] \<Rightarrow> [] | n # r \<Rightarrow> n)"

definition posix_stem :: "string \<Rightarrow> string" where
  "posix_stem p =
     (let n = posix_name p;
          ext = takeWhile (\<lambda>c. c \<noteq> CHR ''.'') (rev n);
          i = length n - length ext - 1
      in if CHR ''.'' \<in> set n \<and> 0 < i \<and> i < length n - 1 then take i n else n)"

definition posix_with_suffix_mp4 :: "string \<Rightarrow> exn + string" where
  "posix_with_suffix_mp4 p =
     (if posix_name p = []
      then Inl (Exception (''PosixPath('' @ py_quote (posix_str p) @ '') has an empty name''))
      else Inr (posix_root p @
                join_with ''/'' (butlast (posix_parts p) @ [posix_stem p @ ''.mp4''])))"

definition demo_yt_info :: yt_info where
  "demo_yt_info =
     \<lparr>yt_title = Some ''Me at the zoo'', yt_duration = Some 19,
      yt_uploader = Some ''jawed'', yt_description = Some ''The first video.'',
      yt_view_count = Some 1234567, yt_like_count = Some 89012,
      yt_upload_date = Some ''20050424''\<rparr>"

definition demo_world :: world where
  "demo_world =
     \<lparr>run_out = demo_run,
      makedirs_out = (\<lambda>t. None),
      exists_out = (\<lambda>t. True),
      listdir_out = (\<lambda>t. Inr []),
      getenv_out = (\<lambda>t. None),
      expanduser_out = (\<lambda>t. ''/home/user''),
      new_client_out = (\<lambda>t. None),
      read_out = (\<lambda>t. Inr ''''),
      chat_out = (\<lambda>t. Inr (Some ''A short clip.'')),
      transcription_out = (\<lambda>t. Inr ''Hello.''),
      import_out = (\<lambda>t. None),
      yt_extract_out = (\<lambda>t. Inr demo_yt_info),
      yt_download_out = (\<lambda>t. None),
      yt_filename_out = (\<lambda>t. Inr ''/home/user/video-downloads/Me at the zoo.webm''),
      py_float = demo_float,
      py_int = demo_int,
      dirname = posix_dirname,
      path_join = posix_join,
      path_stem = posix_stem,
      path_name = posix_name,
      with_suffix_mp4 = posix_with_suffix_mp4\<rparr>"

text \<open>An empty argument bag, and the state of a server that has handled no call and has
  no analyzer.\<close>

definition no_arguments :: arguments where
  "no_arguments =
     \<lparr>arg_video_path = None, arg_num_frames = None, arg_output_dir = None,
      arg_output_path = None, arg_segment_duration = None, arg_url = None,
      arg_quality = None, arg_prompt = None\<rparr>"

definition fresh_state :: server_state where
  "fresh_state = \<lparr>ai_analyzer = None, events = []\<rparr>"

text \<open>The same world with an empty disk: no path asked for exists.\<close>

definition empty_disk_world :: world where
  "empty_disk_world = demo_world\<lparr>exists_out := (\<lambda>t. False)\<rparr>"

text \<open>Variants of the concrete world: every command exits with 1.\<close>

definition failed_probe_world :: world where
  "failed_probe_world = demo_world\<lparr>run_out := (\<lambda>t. Inr \<lparr>returncode = 1, stdout = ''''\<rparr>)\<rparr>"

text \<open>The duration probe exits with 0 and prints \<^verbatim>\<open>N/A\<close>, as ffprobe does for a
  file without a duration.\<close>

definition still_image_world :: world where
  "still_image_world =
     demo_world\<lparr>run_out := (\<lambda>t. case last_event t of
        Some (Run (ProbeDuration p)) \<Rightarrow> Inr \<lparr>returncode = 0, stdout = ''N/A\<newline>''\<rparr>
      | _ \<Rightarrow> demo_run t)\<rparr>"

text \<open>The directory holds three segments and two other files, listed out of order.\<close>

definition segments_world :: world where
  "segments_world =
     demo_world\<lparr>listdir_out := (\<lambda>t. Inr [''clip_segment_002.mp4'', ''notes.txt'',
        ''clip_segment_000.mp4'', ''clip.mp4'', ''clip_segment_001.mp4''])\<rparr>"

text \<open>The audio encoding exits with 1 (a clip without an audio track).\<close>

definition silent_world :: world where
  "silent_world =
     demo_world\<lparr>run_out := (\<lambda>t. case last_event t of
        Some (Run (EncodeAudio p out)) \<Rightarrow> Inr \<lparr>returncode = 1, stdout = ''''\<rparr>
      | _ \<Rightarrow> demo_run t)\<rparr>"

text \<open>The transcription request raises.\<close>

definition rate_limited_world :: world where
  "rate_limited_world =
     demo_world\<lparr>transcription_out := (\<lambda>t. Inl (Exception ''rate limit reached''))\<rparr>"

text \<open>Running the audio encoding raises (the process cannot be started).\<close>

definition no_memory_world :: world where
  "no_memory_world =
     demo_world\<lparr>run_out := (\<lambda>t. case last_event t of
        Some (Run (EncodeAudio p out)) \<Rightarrow> Inl (Exception ''[Errno 12] Cannot allocate memory'')
      | _ \<Rightarrow> demo_run t)\<rparr>"

text \<open>No directory can be made.\<close>

definition read_only_world :: world where
  "read_only_world =
     demo_world\<lparr>makedirs_out := (\<lambda>t. Some (Exception ''[Errno 30] Read-only file system''))\<rparr>"

text \<open>The clip has the duration the probe prints as \<open>out\<close>.\<close>

definition clip_world :: "string \<Rightarrow> world" where
  "clip_world out =
     demo_world\<lparr>run_out := (\<lambda>t. case last_event t of
        Some (Run (ProbeDuration p)) \<Rightarrow> Inr \<lparr>returncode = 0, stdout = out\<rparr>
      | _ \<Rightarrow> demo_run t)\<rparr>"

section \<open>Properties\<close>

subsection \<open>Quality selection of the downloader\<close>

lemma format_spec_unknown:
  "quality \<notin> set quality_enum \<Longrightarrow> format_spec quality = format_720p"
  by (simp add: format_spec_def quality_formats_def quality_enum_def)

lemma format_spec_720p: "format_spec ''720p'' = format_720p"
  by (simp add: format_spec_def quality_formats_def)

subsection \<open>The credential check\<close>

lemma init_analyzer_no_key:
  assumes "getenv_out w (events s @ [Getenv ''GROQ_API_KEY'']) = None \<or>
           getenv_out w (events s @ [Getenv ''GROQ_API_KEY'']) = Some ''''"
  shows "init_analyzer w s = (False, s\<lparr>events := events s @ [Getenv ''GROQ_API_KEY'']\<rparr>)"
  using assms by (auto simp add: init_analyzer_def os_getenv_def Let_def)

text \<open>
  Claim C2. One of the four AI tools is called, no analyzer has been built, and the
  environment holds no credential (the variable is unset or empty). Then the call
  returns the fixed text that names \<^verbatim>\<open>GROQ_API_KEY\<close> and the four FFmpeg-only
  tools, whatever the arguments; the only event of the call is the read of the
  environment variable, so no external command, file, download or API call is made.
\<close>

theorem ai_tool_without_credential:
  assumes "name \<in> set ai_tools"
    and "ai_analyzer s = None"
    and "getenv_out w (events s @ [Getenv ''GROQ_API_KEY'']) = None \<or>
         getenv_out w (events s @ [Getenv ''GROQ_API_KEY'']) = Some ''''"
  shows "call_tool w name a s =
           ([TextContent
              (''Error: GROQ_API_KEY environment variable is required for AI features.\<newline>'' @
               ''Set it with: export GROQ_API_KEY=your-key\<newline>'' @
               ''Or use FFmpeg-only tools: get_video_info, extract_video_frames, extract_video_audio, split_video'')],
            s\<lparr>events := events s @ [Getenv ''GROQ_API_KEY'']\<rparr>)
         \<and> filter backend_call (events (snd (call_tool w name a s))) =
             filter backend_call (events s)"
  using assms
  by (simp add: call_tool_def call_tool_body_def ai_precheck_def init_analyzer_no_key
      missing_key_text_def)

theorem ai_tool_without_credential_witness:
  "''transcribe_video'' \<in> set ai_tools \<and>
   ai_analyzer fresh_state = None \<and>
   getenv_out demo_world (events fresh_state @ [Getenv ''GROQ_API_KEY'']) = None \<and>
   call_tool demo_world ''transcribe_video''
       (no_arguments\<lparr>arg_video_path := Some ''/videos/clip.mp4''\<rparr>) fresh_state =
     ([TextContent
        (''Error: GROQ_API_KEY environment variable is required for AI features.\<newline>'' @
         ''Set it with: export GROQ_API_KEY=your-key\<newline>'' @
         ''Or use FFmpeg-only tools: get_video_info, extract_video_frames, extract_video_audio, split_video'')],
      \<lparr>ai_analyzer = None, events = [Getenv ''GROQ_API_KEY'']\<rparr>)"
proof -
  have h1: "''transcribe_video'' \<in> set ai_tools" by (simp add: ai_tools_def)
  have h2: "ai_analyzer fresh_state = None" by (simp add: fresh_state_def)
  have h3: "getenv_out demo_world (events fresh_state @ [Getenv ''GROQ_API_KEY'']) = None"
    by (simp add: demo_world_def)
  from ai_tool_without_credential [OF h1 h2 disjI1 [OF h3],
      of "no_arguments\<lparr>arg_video_path := Some ''/videos/clip.mp4''\<rparr>"]
  show ?thesis using h1 h2 h3 by (simp add: fresh_state_def)
qed

subsection \<open>The check that the video file exists\<close>

lemma init_analyzer_events:
  "init_analyzer w s = (b, s1) \<Longrightarrow>
   filter backend_call (events s1) = filter backend_call (events s)"
  by (auto simp add: init_analyzer_def os_getenv_def new_client_def Let_def
      split: option.splits if_splits prod.splits)

lemma ai_precheck_events:
  "ai_precheck w name s = (b, s1) \<Longrightarrow>
   filter backend_call (events s1) = filter backend_call (events s)"
  by (auto simp add: ai_precheck_def init_analyzer_events split: if_splits)

lemma ai_precheck_pass:
  "name \<notin> set ai_tools \<or> ai_analyzer s \<noteq> None \<Longrightarrow> ai_precheck w name s = (True, s)"
  by (auto simp add: ai_precheck_def)

text \<open>
  Claim C3, as amended. The call carries a non-empty \<^verbatim>\<open>video_path\<close> that does not
  exist, and the credential check lets the call go on (\<open>ai_precheck\<close> gives \<open>True\<close>:
  the tool is not an AI tool, or an analyzer exists or can be built). Then, for every
  tool name, the call returns exactly \<^verbatim>\<open>Error: Video file not found: {video_path}\<close>
  and makes no backend call: the existence check is its last event.
\<close>

theorem missing_video_file:
  assumes "arg_video_path a = Some video_path"
    and "video_path \<noteq> ''''"
    and "ai_precheck w name s = (True, s1)"
    and "\<not> exists_out w (events s1 @ [Exists video_path])"
  shows "call_tool w name a s =
           ([TextContent (''Error: Video file not found: '' @ video_path)],
            s1\<lparr>events := events s1 @ [Exists video_path]\<rparr>)
         \<and> filter backend_call (events (snd (call_tool w name a s))) =
             filter backend_call (events s)"
  using assms ai_precheck_events [OF assms(3)]
  by (simp add: call_tool_def call_tool_body_def opt_default_def path_exists_def)

theorem missing_video_file_witness:
  "arg_video_path (no_arguments\<lparr>arg_video_path := Some ''/missing.mp4''\<rparr>) =
     Some ''/missing.mp4'' \<and>
   ai_precheck empty_disk_world ''split_video'' fresh_state = (True, fresh_state) \<and>
   \<not> exists_out empty_disk_world (events fresh_state @ [Exists ''/missing.mp4'']) \<and>
   call_tool empty_disk_world ''split_video''
       (no_arguments\<lparr>arg_video_path := Some ''/missing.mp4''\<rparr>) fresh_state =
     ([TextContent ''Error: Video file not found: /missing.mp4''],
      \<lparr>ai_analyzer = None, events = [Exists ''/missing.mp4'']\<rparr>)"
proof -
  have h3: "ai_precheck empty_disk_world ''split_video'' fresh_state = (True, fresh_state)"
    by (simp add: ai_precheck_pass ai_tools_def)
  have h4: "\<not> exists_out empty_disk_world (events fresh_state @ [Exists ''/missing.mp4''])"
    by (simp add: empty_disk_world_def)
  from missing_video_file [of "no_arguments\<lparr>arg_video_path := Some ''/missing.mp4''\<rparr>"
      "''/missing.mp4''", OF _ _ h3 h4]
  show ?thesis using h3 h4 by (simp add: fresh_state_def no_arguments_def)
qed

text \<open>
  The claim as stated fails for an AI tool called without a credential: the credential
  check comes first, and the call ends with the credential text although the file is
  missing.
\<close>

theorem missing_video_file_counterexample:
  "\<not> exists_out empty_disk_world [Getenv ''GROQ_API_KEY'', Exists ''/missing.mp4''] \<and>
   fst (call_tool empty_disk_world ''analyze_video''
       (no_arguments\<lparr>arg_video_path := Some ''/missing.mp4''\<rparr>) fresh_state) =
     [TextContent missing_key_text] \<and>
   fst (call_tool empty_disk_world ''analyze_video''
       (no_arguments\<lparr>arg_video_path := Some ''/missing.mp4''\<rparr>) fresh_state) \<noteq>
     [TextContent ''Error: Video file not found: /missing.mp4'']"
  by code_simp

subsection \<open>The outer boundary and unknown tools\<close>

lemma route_unknown:
  "name \<notin> set tool_names \<Longrightarrow> route w name a vp an t = (Inr (''Unknown tool: '' @ name), t)"
  by (auto simp add: route_def tool_names_def)

lemma tool_names_not_ai: "name \<notin> set tool_names \<Longrightarrow> name \<notin> set ai_tools"
  by (auto simp add: tool_names_def ai_tools_def)

subsection \<open>Probes that fail\<close>

text \<open>
  Claim C5, as amended. The three probes run (no \<^verbatim>\<open>subprocess.run\<close> raises), the
  output of a duration probe that exited with 0 is accepted by \<^verbatim>\<open>float\<close>, and the
  output of a size probe that exited with 0 and contains an \<^verbatim>\<open>x\<close> unpacks into two
  integers. Then \<^verbatim>\<open>get_video_info\<close> returns metadata, not a failure, and each
  probe that exited non-zero (for the size also: whose output holds no \<^verbatim>\<open>x\<close>) has
  its default: duration 0, width and height 0, codec \<^verbatim>\<open>unknown\<close>; a codec probe
  that exited with 0 gives its stripped output. So a failure is returned only when
  running a probe raises or the output of a zero-exit duration or size probe does not
  parse, never because a probe exited non-zero.
\<close>

theorem get_video_info_degrades:
  assumes r1: "run_out w (t @ [Run (ProbeDuration p)]) = Inr r1"
    and r2: "run_out w (t @ [Run (ProbeDuration p), Run (ProbeSize p)]) = Inr r2"
    and r3: "run_out w (t @ [Run (ProbeDuration p), Run (ProbeSize p), Run (ProbeCodec p)]) = Inr r3"
    and d: "returncode r1 = 0 \<Longrightarrow> py_float w (strip (stdout r1)) = Inr d"
    and sz: "returncode r2 = 0 \<Longrightarrow> CHR ''x'' \<in> set (stdout r2) \<Longrightarrow>
             unpack_size w (split_on (CHR ''x'') (strip (stdout r2))) = Inr (wd, ht)"
  shows "get_video_info w p t =
           (VideoInfo
              \<lparr>duration = (if returncode r1 = 0 then d else 0),
               width = (if returncode r2 = 0 \<and> CHR ''x'' \<in> set (stdout r2) then wd else 0),
               height = (if returncode r2 = 0 \<and> CHR ''x'' \<in> set (stdout r2) then ht else 0),
               codec = (if returncode r3 = 0 then strip (stdout r3) else ''unknown''),
               path = p, filename = path_name w p\<rparr>,
            t @ [Run (ProbeDuration p), Run (ProbeSize p), Run (ProbeCodec p)])"
  using assms
  by (simp add: get_video_info_def subprocess_run_def read_duration_def read_size_def
      read_codec_def Let_def)

text \<open>All three probes exit with 1: every field has its default.\<close>

theorem get_video_info_degrades_witness:
  "run_out failed_probe_world [Run (ProbeDuration ''/videos/clip.mp4'')] =
     Inr \<lparr>returncode = 1, stdout = ''''\<rparr> \<and>
   get_video_info failed_probe_world ''/videos/clip.mp4'' [] =
     (VideoInfo \<lparr>duration = 0, width = 0, height = 0, codec = ''unknown'',
        path = ''/videos/clip.mp4'', filename = ''clip.mp4''\<rparr>,
      [Run (ProbeDuration ''/videos/clip.mp4''), Run (ProbeSize ''/videos/clip.mp4''),
       Run (ProbeCodec ''/videos/clip.mp4'')])"
proof -
  let ?r = "\<lparr>returncode = 1, stdout = ''''\<rparr>"
  have r: "\<And>t. run_out failed_probe_world t = Inr ?r"
    by (simp add: failed_probe_world_def)
  have n: "path_name failed_probe_world ''/videos/clip.mp4'' = ''clip.mp4''"
    by code_simp
  from get_video_info_degrades [of failed_probe_world "[]" "''/videos/clip.mp4''" ?r ?r ?r 0 0 0,
      OF r r r]
  show ?thesis using r n by simp
qed

text \<open>
  The claim as stated fails for unparsable output: a duration probe that exits with 0
  and prints \<^verbatim>\<open>N/A\<close> makes \<^verbatim>\<open>float\<close> raise, and the whole call returns the
  failure dictionary instead of a duration of 0.
\<close>

theorem get_video_info_unparsable_counterexample:
  "run_out still_image_world [Run (ProbeDuration ''/videos/still.png'')] =
     Inr \<lparr>returncode = 0, stdout = ''N/A\<newline>''\<rparr> \<and>
   py_float still_image_world ''N/A'' =
     Inl (Exception (''could not convert string to float: '' @ py_quote ''N/A'')) \<and>
   get_video_info still_image_world ''/videos/still.png'' [] =
     (ErrorInfo (''could not convert string to float: '' @ py_quote ''N/A'') ''/videos/still.png'',
      [Run (ProbeDuration ''/videos/still.png'')])"
  by code_simp

subsection \<open>Splitting\<close>

lemma get_video_info_events:
  "get_video_info w p t = (r, t') \<Longrightarrow>
   \<exists>new. t' = t @ new \<and> capture_timestamps new = [] \<and> \<not> list_ex segmenting_run new"
  by (auto simp add: get_video_info_def subprocess_run_def Let_def
      split: prod.splits sum.splits)

text \<open>
  Claim C8. Whenever \<^verbatim>\<open>split_video\<close> returns segments, they are sorted in the
  lexicographic order of strings. When the output directory could be made and the
  metadata probe reports an error or a duration that is not positive (0 in particular),
  \<^verbatim>\<open>split_video\<close> returns the empty list, and the events of the call hold no run of
  the segmenting command.
\<close>

theorem split_video_empty_and_sorted:
  "(\<forall>segments t'. split_video w video_path segment_duration output_dir t = (Inr segments, t')
      \<longrightarrow> sorted segments) \<and>
   (makedirs_out w (t @ [Makedirs (default_dir w video_path output_dir)]) = None \<longrightarrow>
    get_video_info w video_path (t @ [Makedirs (default_dir w video_path output_dir)]) = (r, t2) \<longrightarrow>
    (case r of ErrorInfo m p \<Rightarrow> True | VideoInfo info \<Rightarrow> duration info \<le> 0) \<longrightarrow>
    split_video w video_path segment_duration output_dir t = (Inr [], t2) \<and>
    \<not> list_ex segmenting_run (drop (length t) t2))"
proof (intro conjI allI impI)
  fix segments t'
  assume "split_video w video_path segment_duration output_dir t = (Inr segments, t')"
  then show "sorted segments"
    by (auto simp add: split_video_def Let_def
        split: prod.splits sum.splits option.splits info_dict.splits if_splits)
next
  assume mk: "makedirs_out w (t @ [Makedirs (default_dir w video_path output_dir)]) = None"
    and pr: "get_video_info w video_path (t @ [Makedirs (default_dir w video_path output_dir)]) = (r, t2)"
    and bad: "case r of ErrorInfo m p \<Rightarrow> True | VideoInfo info \<Rightarrow> duration info \<le> 0"
  from mk pr bad show "split_video w video_path segment_duration output_dir t = (Inr [], t2)"
    by (auto simp add: split_video_def os_makedirs_def Let_def split: info_dict.splits)
  from get_video_info_events [OF pr] obtain new where
    "t2 = (t @ [Makedirs (default_dir w video_path output_dir)]) @ new"
    "\<not> list_ex segmenting_run new" by blast
  then show "\<not> list_ex segmenting_run (drop (length t) t2)" by simp
qed

text \<open>A clip whose probes fail (duration 0), and a directory listed out of order.\<close>

theorem split_video_empty_and_sorted_witness:
  "split_video failed_probe_world ''/videos/clip.mp4'' 60 None [] =
     (Inr [], [Makedirs ''/videos'', Run (ProbeDuration ''/videos/clip.mp4''),
        Run (ProbeSize ''/videos/clip.mp4''), Run (ProbeCodec ''/videos/clip.mp4'')]) \<and>
   fst (split_video segments_world ''/videos/clip.mp4'' 60 None []) =
     Inr [''/videos/clip_segment_000.mp4'', ''/videos/clip_segment_001.mp4'',
          ''/videos/clip_segment_002.mp4''] \<and>
   sorted [''/videos/clip_segment_000.mp4'', ''/videos/clip_segment_001.mp4'',
          ''/videos/clip_segment_002.mp4'']"
proof -
  let ?t1 = "[Makedirs ''/videos'']"
  let ?t2 = "[Makedirs ''/videos'', Run (ProbeDuration ''/videos/clip.mp4''),
        Run (ProbeSize ''/videos/clip.mp4''), Run (ProbeCodec ''/videos/clip.mp4'')]"
  let ?r = "VideoInfo \<lparr>duration = 0, width = 0, height = 0, codec = ''unknown'',
        path = ''/videos/clip.mp4'', filename = ''clip.mp4''\<rparr>"
  have d: "default_dir failed_probe_world ''/videos/clip.mp4'' None = ''/videos''"
    by code_simp
  have mk: "makedirs_out failed_probe_world
      ([] @ [Makedirs (default_dir failed_probe_world ''/videos/clip.mp4'' None)]) = None"
    by (simp add: failed_probe_world_def demo_world_def)
  have pr: "get_video_info failed_probe_world ''/videos/clip.mp4''
      ([] @ [Makedirs (default_dir failed_probe_world ''/videos/clip.mp4'' None)]) = (?r, ?t2)"
    by code_simp
  have bad: "case ?r of ErrorInfo m p \<Rightarrow> True | VideoInfo info \<Rightarrow> duration info \<le> 0"
    by simp
  have s: "split_video segments_world ''/videos/clip.mp4'' 60 None [] =
     (Inr [''/videos/clip_segment_000.mp4'', ''/videos/clip_segment_001.mp4'',
          ''/videos/clip_segment_002.mp4''],
      [Makedirs ''/videos'', Run (ProbeDuration ''/videos/clip.mp4''),
       Run (ProbeSize ''/videos/clip.mp4''), Run (ProbeCodec ''/videos/clip.mp4''),
       Run (SegmentCopy ''/videos/clip.mp4'' 60 ''/videos/clip_segment_%03d.mp4''),
       Listdir ''/videos''])"
    by code_simp
  note inst = split_video_empty_and_sorted [of failed_probe_world "''/videos/clip.mp4''" 60 None "[]" ?r ?t2]
  from inst mk pr bad
  have 1: "split_video failed_probe_world ''/videos/clip.mp4'' 60 None [] = (Inr [], ?t2)"
    by blast
  from split_video_empty_and_sorted [of segments_world "''/videos/clip.mp4''" 60 None "[]"] s
  have 2: "sorted [''/videos/clip_segment_000.mp4'', ''/videos/clip_segment_001.mp4'',
          ''/videos/clip_segment_002.mp4'']"
    by blast
  show ?thesis using 1 2 s by simp
qed

subsection \<open>Frame timestamps\<close>







subsection \<open>Numeric arguments\<close>

lemma route_clamp_frames:
  "20 \<le> n \<Longrightarrow>
   route w ''extract_video_frames'' (a\<lparr>arg_num_frames := Some n\<rparr>) vp an t =
   route w ''extract_video_frames'' (a\<lparr>arg_num_frames := Some 20\<rparr>) vp an t"
  by (simp add: route_def tool_extract_video_frames_def opt_default_def)

lemma route_clamp_analyze:
  "10 \<le> n \<Longrightarrow>
   route w ''analyze_video'' (a\<lparr>arg_num_frames := Some n\<rparr>) vp an t =
   route w ''analyze_video'' (a\<lparr>arg_num_frames := Some 10\<rparr>) vp an t"
  by (simp add: route_def tool_analyze_video_def opt_default_def)

lemma route_clamp_summarize:
  "10 \<le> n \<Longrightarrow>
   route w ''summarize_video'' (a\<lparr>arg_num_frames := Some n\<rparr>) vp an t =
   route w ''summarize_video'' (a\<lparr>arg_num_frames := Some 10\<rparr>) vp an t"
  by (simp add: route_def tool_summarize_video_def opt_default_def)

lemma route_clamp_complete:
  "10 \<le> n \<Longrightarrow>
   route w ''analyze_video_complete'' (a\<lparr>arg_num_frames := Some n\<rparr>) vp an t =
   route w ''analyze_video_complete'' (a\<lparr>arg_num_frames := Some 10\<rparr>) vp an t"
  by (simp add: route_def tool_analyze_video_complete_def opt_default_def)

lemma call_tool_route_cong:
  assumes "\<And>vp an t. route w name a vp an t = route w name b vp an t"
    and "arg_video_path a = arg_video_path b"
  shows "call_tool w name a s = call_tool w name b s"
  by (simp add: call_tool_def call_tool_body_def assms Let_def
      split: prod.splits bool.splits sum.splits)

end
